theory Spec2Isabelle
  imports Main
begin

section \<open>The job query schema (GraphQL document, src/unnamed/part_000)\<close>

text \<open>
  The schema file is a GraphQL type-system document. It is embedded as the syntax tree
  the document denotes: a type reference is a named type, a list type or a non-null
  type (the \<open>!\<close> suffix); a field has a name, arguments and a type; a definition
  is an object type, an enum or an input object type.
\<close>

datatype gql_type =
    Named string
  | ListType gql_type
  | NonNull gql_type

datatype gql_input_value = InputValue (input_name: string) (input_type: gql_type)

datatype gql_field =
  Field (field_name: string) (field_args: "gql_input_value list") (field_type: gql_type)

datatype gql_definition =
    ObjectType string "gql_field list"
  | EnumType string "string list"
  | InputObjectType string "gql_input_value list"

definition job_schema :: "gql_definition list" where
  "job_schema =
    [ ObjectType ''Query''
        [ Field ''job'' [InputValue ''jobId'' (NonNull (Named ''String''))] (Named ''JobInfo''),
          Field ''jobs'' [InputValue ''input'' (Named ''JobListInput'')]
            (NonNull (ListType (NonNull (Named ''JobInfo'')))) ],
      EnumType ''JobState'' [''PENDING'', ''RUNNING'', ''COMPLETED'', ''FAILED''],
      InputObjectType ''JobListInput''
        [ InputValue ''state'' (Named ''JobState''),
          InputValue ''ids'' (ListType (NonNull (Named ''String''))) ],
      ObjectType ''JobInfo''
        [ Field ''id'' [] (NonNull (Named ''String'')),
          Field ''name'' [] (NonNull (Named ''String'')),
          Field ''state'' [] (NonNull (Named ''JobState'')),
          Field ''progress'' [] (NonNull (Named ''Float'')),
          Field ''result'' [] (Named ''JSON''),
          Field ''started'' [] (Named ''DateTime''),
          Field ''ended'' [] (Named ''DateTime''),
          Field ''duration'' [] (Named ''Int'') ] ]"

text \<open>Reading a document: the definitions of each kind, in document order.\<close>

fun object_types :: "gql_definition list \<Rightarrow> (string \<times> gql_field list) list" where
  "object_types [] = []"
| "object_types (ObjectType n fs # ds) = (n, fs) # object_types ds"
| "object_types (_ # ds) = object_types ds"

fun enum_types :: "gql_definition list \<Rightarrow> (string \<times> string list) list" where
  "enum_types [] = []"
| "enum_types (EnumType n vs # ds) = (n, vs) # enum_types ds"
| "enum_types (_ # ds) = enum_types ds"

fun input_types :: "gql_definition list \<Rightarrow> (string \<times> gql_input_value list) list" where
  "input_types [] = []"
| "input_types (InputObjectType n vs # ds) = (n, vs) # input_types ds"
| "input_types (_ # ds) = input_types ds"

text \<open>The fields of the object type of a given name; none when the type is not defined.\<close>

definition fields_of :: "string \<Rightarrow> gql_definition list \<Rightarrow> gql_field list" where
  "fields_of n ds = (case map_of (object_types ds) n of None \<Rightarrow> [] | Some fs \<Rightarrow> fs)"

definition input_fields_of :: "string \<Rightarrow> gql_definition list \<Rightarrow> gql_input_value list" where
  "input_fields_of n ds = (case map_of (input_types ds) n of None \<Rightarrow> [] | Some vs \<Rightarrow> vs)"

definition field_named :: "string \<Rightarrow> gql_field list \<Rightarrow> gql_field option" where
  "field_named n fs = find (\<lambda>f. field_name f = n) fs"

text \<open>
  In GraphQL a type is nullable unless it is wrapped in non-null; for an argument or an
  input field without a default value, nullable is the same as optional.
\<close>

fun nullable :: "gql_type \<Rightarrow> bool" where
  "nullable (NonNull _) = False"
| "nullable _ = True"

text \<open>The element type of a list type, looking through an outer non-null.\<close>

fun list_element :: "gql_type \<Rightarrow> gql_type option" where
  "list_element (ListType t) = Some t"
| "list_element (NonNull (ListType t)) = Some t"
| "list_element _ = None"

section \<open>TypeScript type declarations\<close>

text \<open>
  Most of the repository is type declarations. A declaration is embedded as the syntax
  tree of the type it declares: an interface keeps its name, the types it extends and
  its own members; a type alias is the HOL constant of its right-hand side; a generic
  alias is a HOL function of its type arguments. A type the files import from outside
  (\<open>ModuleMetadata\<close>, \<open>DocumentNode\<close>, \<open>VendureConfig\<close>, the generated GraphQL types,
  the library types \<open>Array\<close>, \<open>Promise\<close>, \<open>Required\<close>, \<open>Omit\<close>, \<open>Date\<close>) is a
  reference by name, \<open>TRef\<close>, with its type arguments.
\<close>

datatype ts_type =
    TString
  | TNumber
  | TBoolean
  | TVoid
  | TNever
  | TAny
  | TLiteral string
  | TRef string "ts_type list"
  | TArray ts_type
  | TUnion "ts_type list"
  | TIntersection "ts_type list"
  | TFunction "(string \<times> ts_type) list" ts_type
  | TObject "ts_member list"
  | TInterface string "ts_type list" "ts_member list"
and ts_member =
    Property string bool ts_type
  | Method string "(string \<times> ts_type) list" ts_type
  | Construct "(string \<times> ts_type) list" ts_type

text \<open>
  A property \<open>name?: T\<close> is \<open>Property name True T\<close>, the flag saying that the
  question mark is there; a method signature \<open>name(params): R\<close> is never optional and
  has the function type of its signature; a construct signature has no name.
\<close>

fun member_name :: "ts_member \<Rightarrow> string option" where
  "member_name (Property n _ _) = Some n"
| "member_name (Method n _ _) = Some n"
| "member_name (Construct _ _) = None"

fun member_optional :: "ts_member \<Rightarrow> bool" where
  "member_optional (Property _ opt _) = opt"
| "member_optional (Method _ _ _) = False"
| "member_optional (Construct _ _) = False"

fun member_type :: "ts_member \<Rightarrow> ts_type" where
  "member_type (Property _ _ t) = t"
| "member_type (Method _ ps r) = TFunction ps r"
| "member_type (Construct ps r) = TFunction ps r"

fun own_members :: "ts_type \<Rightarrow> ts_member list" where
  "own_members (TInterface _ _ ms) = ms"
| "own_members (TObject ms) = ms"
| "own_members _ = []"

fun extended_types :: "ts_type \<Rightarrow> ts_type list" where
  "extended_types (TInterface _ es _) = es"
| "extended_types _ = []"

fun constituents :: "ts_type \<Rightarrow> ts_type list" where
  "constituents (TIntersection ts) = ts"
| "constituents t = [t]"

fun union_members :: "ts_type \<Rightarrow> ts_type list" where
  "union_members (TUnion ts) = ts"
| "union_members t = [t]"

fun literal_of :: "ts_type \<Rightarrow> string option" where
  "literal_of (TLiteral s) = Some s"
| "literal_of _ = None"

text \<open>
  The members an intersection (or a single object type) declares itself: those of each
  constituent that is an interface or an object literal type, in order.
\<close>

definition declared_members :: "ts_type \<Rightarrow> ts_member list" where
  "declared_members t = concat (map own_members (constituents t))"

definition member_named :: "string \<Rightarrow> ts_type \<Rightarrow> ts_member option" where
  "member_named n t = find (\<lambda>m. member_name m = Some n) (declared_members t)"

subsection \<open>packages/common/src/shared-types.ts\<close>

definition Type :: "ts_type \<Rightarrow> ts_type" where
  "Type T = TInterface ''Type'' [TRef ''Function'' []] [Construct [(''...args'', TArray TAny)] T]"

definition CustomFieldType :: ts_type where
  "CustomFieldType =
     TUnion [TLiteral ''string'', TLiteral ''localeString'', TLiteral ''int'',
             TLiteral ''float'', TLiteral ''boolean'', TLiteral ''datetime'']"

subsection \<open>packages/core/src/plugin/vendure-plugin.ts: the declarations\<close>

definition APIExtensionDefinition :: ts_type where
  "APIExtensionDefinition =
     TInterface ''APIExtensionDefinition'' []
       [ Property ''schema'' True (TRef ''DocumentNode'' []),
         Property ''resolvers'' False (TRef ''Array'' [Type TAny]) ]"

definition PluginConfigurationFn :: ts_type where
  "PluginConfigurationFn =
     TFunction [(''config'', TRef ''Required'' [TRef ''VendureConfig'' []])]
       (TUnion [ TRef ''Required'' [TRef ''VendureConfig'' []],
                 TRef ''Promise'' [TRef ''Required'' [TRef ''VendureConfig'' []]] ])"

definition VendurePluginMetadata :: ts_type where
  "VendurePluginMetadata =
     TInterface ''VendurePluginMetadata'' [TRef ''ModuleMetadata'' []]
       [ Property ''configuration'' True PluginConfigurationFn,
         Property ''shopApiExtensions'' True APIExtensionDefinition,
         Property ''adminApiExtensions'' True APIExtensionDefinition,
         Property ''workers'' True (TRef ''Array'' [Type TAny]),
         Property ''entities'' True (TRef ''Array'' [Type TAny]) ]"

definition OnVendureBootstrap :: ts_type where
  "OnVendureBootstrap =
     TInterface ''OnVendureBootstrap'' []
       [Method ''onVendureBootstrap'' [] (TUnion [TVoid, TRef ''Promise'' [TVoid]])]"

definition OnVendureWorkerBootstrap :: ts_type where
  "OnVendureWorkerBootstrap =
     TInterface ''OnVendureWorkerBootstrap'' []
       [Method ''onVendureWorkerBootstrap'' [] (TUnion [TVoid, TRef ''Promise'' [TVoid]])]"

definition OnVendureClose :: ts_type where
  "OnVendureClose =
     TInterface ''OnVendureClose'' []
       [Method ''onVendureClose'' [] (TUnion [TVoid, TRef ''Promise'' [TVoid]])]"

definition OnVendureWorkerClose :: ts_type where
  "OnVendureWorkerClose =
     TInterface ''OnVendureWorkerClose'' []
       [Method ''onVendureWorkerClose'' [] (TUnion [TVoid, TRef ''Promise'' [TVoid]])]"

definition PluginLifecycleMethods :: ts_type where
  "PluginLifecycleMethods =
     TIntersection [OnVendureBootstrap, OnVendureWorkerBootstrap, OnVendureClose,
                    OnVendureWorkerClose]"

subsection \<open>The custom field configuration types (src/unnamed/part_001)\<close>

text \<open>
  \<open>DefaultValueType<T>\<close> is a conditional type over \<open>T extends CustomFieldType\<close>. It
  is embedded for \<open>T\<close> a single string literal type, given by its string; a literal
  extends a union of literals when it is one of them, and the branches are tried in
  the order of the source, ending in \<open>never\<close>.
\<close>

definition DefaultValueType :: "string \<Rightarrow> ts_type" where
  "DefaultValueType T =
     (if T \<in> set [''string'', ''localeString''] then TString
      else if T \<in> set [''int'', ''float''] then TNumber
      else if T = ''boolean'' then TBoolean
      else if T = ''datetime'' then TRef ''Date'' []
      else TNever)"

definition TypedCustomFieldConfig :: "string \<Rightarrow> ts_type \<Rightarrow> ts_type" where
  "TypedCustomFieldConfig T C =
     TIntersection
       [ TRef ''Omit'' [C, TLiteral ''__typename''],
         TObject
           [ Property ''type'' False (TLiteral T),
             Property ''public'' True TBoolean,
             Property ''defaultValue'' True (DefaultValueType T),
             Property ''nullable'' True TBoolean,
             Property ''validate'' True
               (TFunction [(''value'', DefaultValueType T)]
                  (TUnion [TString, TArray (TRef ''LocalizedString'' []), TVoid])) ] ]"

definition StringCustomFieldConfig :: ts_type where
  "StringCustomFieldConfig =
     TypedCustomFieldConfig ''string'' (TRef ''GraphQLStringCustomFieldConfig'' [])"

definition LocaleStringCustomFieldConfig :: ts_type where
  "LocaleStringCustomFieldConfig =
     TypedCustomFieldConfig ''localeString'' (TRef ''GraphQLLocaleStringCustomFieldConfig'' [])"

definition IntCustomFieldConfig :: ts_type where
  "IntCustomFieldConfig =
     TypedCustomFieldConfig ''int'' (TRef ''GraphQLIntCustomFieldConfig'' [])"

definition FloatCustomFieldConfig :: ts_type where
  "FloatCustomFieldConfig =
     TypedCustomFieldConfig ''float'' (TRef ''GraphQLFloatCustomFieldConfig'' [])"

definition BooleanCustomFieldConfig :: ts_type where
  "BooleanCustomFieldConfig =
     TypedCustomFieldConfig ''boolean'' (TRef ''GraphQLBooleanCustomFieldConfig'' [])"

definition DateTimeCustomFieldConfig :: ts_type where
  "DateTimeCustomFieldConfig =
     TypedCustomFieldConfig ''datetime'' (TRef ''GraphQLDateTimeCustomFieldConfig'' [])"

definition CustomFieldConfig :: ts_type where
  "CustomFieldConfig =
     TUnion [ StringCustomFieldConfig, LocaleStringCustomFieldConfig, IntCustomFieldConfig,
              FloatCustomFieldConfig, BooleanCustomFieldConfig, DateTimeCustomFieldConfig ]"

definition CustomFields :: ts_type where
  "CustomFields =
     TInterface ''CustomFields'' []
       [ Property ''Address'' True (TArray CustomFieldConfig),
         Property ''Collection'' True (TArray CustomFieldConfig),
         Property ''Customer'' True (TArray CustomFieldConfig),
         Property ''Facet'' True (TArray CustomFieldConfig),
         Property ''FacetValue'' True (TArray CustomFieldConfig),
         Property ''GlobalSettings'' True (TArray CustomFieldConfig),
         Property ''OrderLine'' True (TArray CustomFieldConfig),
         Property ''Product'' True (TArray CustomFieldConfig),
         Property ''ProductOption'' True (TArray CustomFieldConfig),
         Property ''ProductOptionGroup'' True (TArray CustomFieldConfig),
         Property ''ProductVariant'' True (TArray CustomFieldConfig),
         Property ''User'' True (TArray CustomFieldConfig) ]"

text \<open>The field type a custom field configuration is typed over: the literal of its \<open>type\<close> member.\<close>

definition config_field_type :: "ts_type \<Rightarrow> string option" where
  "config_field_type t =
     (case member_named ''type'' t of
        Some m \<Rightarrow> (if member_optional m then None else literal_of (member_type m))
      | None \<Rightarrow> None)"

section \<open>The VendurePlugin decorator (packages/core/src/plugin/vendure-plugin.ts)\<close>

text \<open>
  JavaScript values as far as plugin metadata needs them. A class, function or other
  object with identity is a reference by name.
\<close>

datatype js_value =
    JUndefined
  | JNull
  | JBoolean bool
  | JNumber int
  | JString string
  | JReference string
  | JArray "js_value list"

text \<open>
  A plain object is a finite map from its own property names to values (properties
  inherited from \<open>Object.prototype\<close> are left out). Reading a property that is
  absent gives \<open>undefined\<close>; the loose comparison \<open>v != null\<close> is false for
  \<open>null\<close> and for \<open>undefined\<close> and true for every other value.
\<close>

type_synonym js_object = "string \<rightharpoonup> js_value"

definition get_property :: "js_object \<Rightarrow> string \<Rightarrow> js_value" where
  "get_property obj k = (case obj k of None \<Rightarrow> JUndefined | Some v \<Rightarrow> v)"

definition not_null :: "js_value \<Rightarrow> bool" where
  "not_null v = (v \<noteq> JNull \<and> v \<noteq> JUndefined)"

text \<open>
  The metadata store of the \<open>reflect-metadata\<close> library: \<open>Reflect.defineMetadata(key,
  value, target)\<close> stores the value for the target under the key, replacing an earlier
  one. Targets are classes; their type is left open.
\<close>

type_synonym 't reflect_store = "'t \<times> string \<rightharpoonup> js_value"

definition defineMetadata :: "string \<Rightarrow> js_value \<Rightarrow> 't \<Rightarrow> 't reflect_store \<Rightarrow> 't reflect_store" where
  "defineMetadata metadataKey metadataValue target store = store((target, metadataKey) \<mapsto> metadataValue)"

text \<open>
  Modelled from the spec: the \<open>pick\<close> helper of \<open>@vendure/common/lib/pick\<close> is not among
  the source files, and the spec describes it only through its use in the decorator,
  \<open>pick(pluginMetadata, Object.values(METADATA))\<close>. It is taken as the loop that
  starts from an empty object and, for each requested key in turn, assigns to that key
  of the output what reading the key of the input gives. A requested key that the
  input lacks is therefore present in the result, holding \<open>undefined\<close>, and a key
  that is not requested is absent from it.
\<close>

fun pick_loop :: "js_object \<Rightarrow> string list \<Rightarrow> js_object \<Rightarrow> js_object" where
  "pick_loop input [] out = out"
| "pick_loop input (prop # props) out =
     pick_loop input props (out(prop \<mapsto> get_property input prop))"

definition pick :: "js_object \<Rightarrow> string list \<Rightarrow> js_object" where
  "pick input props = pick_loop input props Map.empty"

text \<open>
  The loop of the decorator over \<open>Object.values(PLUGIN_METADATA)\<close>. The constant
  \<open>PLUGIN_METADATA\<close> (\<open>./plugin-metadata\<close>) is not among the source files, so the list
  of its values is a parameter.
\<close>

fun define_plugin_metadata ::
  "string list \<Rightarrow> js_object \<Rightarrow> 't \<Rightarrow> 't reflect_store \<Rightarrow> 't reflect_store" where
  "define_plugin_metadata [] pluginMetadata target store = store"
| "define_plugin_metadata (property # rest) pluginMetadata target store =
     define_plugin_metadata rest pluginMetadata target
       (if not_null (get_property pluginMetadata property)
        then defineMetadata property (get_property pluginMetadata property) target store
        else store)"

text \<open>
  \<open>VendurePlugin(pluginMetadata)\<close> applied to \<open>target\<close>. The values of Nest's
  \<open>METADATA\<close> constant and Nest's \<open>Module\<close> decorator belong to \<open>@nestjs/common\<close> and
  are parameters; \<open>Module(metadata)(target)\<close> runs in the store the loop has left and
  its outcome, of whatever type, is the outcome of the decorator.
\<close>

definition VendurePlugin ::
  "string list \<Rightarrow> string list \<Rightarrow> (js_object \<Rightarrow> 't \<Rightarrow> 't reflect_store \<Rightarrow> 'r) \<Rightarrow>
   js_object \<Rightarrow> 't \<Rightarrow> 't reflect_store \<Rightarrow> 'r" where
  "VendurePlugin PLUGIN_METADATA METADATA Module pluginMetadata target store =
     (let store' = define_plugin_metadata PLUGIN_METADATA pluginMetadata target store;
          nestModuleMetadata = pick pluginMetadata METADATA
      in Module nestModuleMetadata target store')"



section \<open>The worker module (packages/core/src/worker/worker.module.ts)\<close>

text \<open>
  A \<open>WorkerModule\<close> instance holds its injected \<open>WorkerMonitor\<close>. The monitor class
  (\<open>./worker-monitor\<close>) is not among the source files: the instance holds a reference
  to it, and its method \<open>waitForOpenTasksToComplete\<close> is a parameter, a function of
  the receiver and of the state of the process that gives a result and a new state.
\<close>

record 'ref WorkerModule =
  monitor :: 'ref

definition onModuleDestroy ::
  "('ref \<Rightarrow> 'w \<Rightarrow> 'r \<times> 'w) \<Rightarrow> 'ref WorkerModule \<Rightarrow> 'w \<Rightarrow> 'r \<times> 'w" where
  "onModuleDestroy waitForOpenTasksToComplete this w =
     waitForOpenTasksToComplete (monitor this) w"

text \<open>
  The \<open>Logger\<close> class (\<open>../config/logger/vendure-logger\<close>) is not among the source
  files either: its static method \<open>info\<close> is a parameter, a function of the message
  and of the logger's state. The state of the process holds the logger's state;
  whatever else the process holds, the monitor's state included, is the rest of the
  record.
\<close>

record 'l process =
  logger :: 'l

text \<open>
  The optional parameter \<open>signal?: string\<close> is \<open>None\<close> when the argument is absent.
  A string is truthy unless it is empty, \<open>undefined\<close> is falsy, and \<open>+\<close> appends the
  string form of its right operand.
\<close>

fun truthy :: "string option \<Rightarrow> bool" where
  "truthy None = False"
| "truthy (Some s) = (s \<noteq> [])"

fun to_string :: "string option \<Rightarrow> string" where
  "to_string None = ''undefined''"
| "to_string (Some s) = s"

definition onApplicationShutdown ::
  "(string \<Rightarrow> 'l \<Rightarrow> 'l) \<Rightarrow> 'ref WorkerModule \<Rightarrow> string option \<Rightarrow>
   ('l, 'a) process_scheme \<Rightarrow> ('l, 'a) process_scheme" where
  "onApplicationShutdown Logger_info this signal w =
     (if truthy signal
      then w\<lparr>logger := Logger_info (''Worker Received shutdown signal:'' @ to_string signal) (logger w)\<rparr>
      else w)"

text \<open>A logger that only records the messages it is given, to observe the calls.\<close>

definition recording_logger :: "string \<Rightarrow> string list \<Rightarrow> string list" where
  "recording_logger message calls = calls @ [message]"

section \<open>Properties of the job schema\<close>

text \<open>
  C1. The job schema defines exactly two query fields: \<open>Query.job\<close>, whose only
  argument is a required (non-null) String \<open>jobId\<close>, and \<open>Query.jobs\<close>, whose only
  argument is an optional \<open>input\<close> of type JobListInput. Apart from the root type
  Query it defines exactly one object type, JobInfo, whose fields are id, name, state,
  progress, result, started, ended and duration in that order, and exactly one enum,
  JobState, whose members are PENDING, RUNNING, COMPLETED and FAILED in that order.
\<close>

theorem job_schema_shape:
  "map (\<lambda>f. (field_name f, field_args f)) (fields_of ''Query'' job_schema) =
     [ (''job'', [InputValue ''jobId'' (NonNull (Named ''String''))]),
       (''jobs'', [InputValue ''input'' (Named ''JobListInput'')]) ]
   \<and> map (nullable \<circ> input_type) (concat (map field_args (fields_of ''Query'' job_schema))) =
       [False, True]
   \<and> map fst (object_types job_schema) = [''Query'', ''JobInfo'']
   \<and> map field_name (fields_of ''JobInfo'' job_schema) =
       [''id'', ''name'', ''state'', ''progress'', ''result'', ''started'', ''ended'', ''duration'']
   \<and> enum_types job_schema = [(''JobState'', [''PENDING'', ''RUNNING'', ''COMPLETED'', ''FAILED''])]"
  by (simp add: job_schema_def fields_of_def)

text \<open>
  C9. \<open>Query.job\<close> may return null, its result type being the nullable JobInfo.
  \<open>Query.jobs\<close> returns a non-null list whose elements are non-null JobInfo. Within
  JobInfo the non-null fields are exactly id, name, state and progress and the nullable
  ones exactly result, started, ended and duration. Both fields of JobListInput, state
  and ids, are nullable, hence optional.
\<close>

theorem job_schema_nullability:
  "map_option field_type (field_named ''job'' (fields_of ''Query'' job_schema)) =
     Some (Named ''JobInfo'')
   \<and> nullable (Named ''JobInfo'')
   \<and> map_option field_type (field_named ''jobs'' (fields_of ''Query'' job_schema)) =
       Some (NonNull (ListType (NonNull (Named ''JobInfo''))))
   \<and> \<not> nullable (NonNull (ListType (NonNull (Named ''JobInfo''))))
   \<and> list_element (NonNull (ListType (NonNull (Named ''JobInfo'')))) =
       Some (NonNull (Named ''JobInfo''))
   \<and> \<not> nullable (NonNull (Named ''JobInfo''))
   \<and> map field_name (filter (nullable \<circ> field_type) (fields_of ''JobInfo'' job_schema)) =
       [''result'', ''started'', ''ended'', ''duration'']
   \<and> map field_name (filter (\<lambda>f. \<not> nullable (field_type f)) (fields_of ''JobInfo'' job_schema)) =
       [''id'', ''name'', ''state'', ''progress'']
   \<and> map (\<lambda>v. (input_name v, nullable (input_type v))) (input_fields_of ''JobListInput'' job_schema) =
       [(''state'', True), (''ids'', True)]"
  by (simp add: job_schema_def fields_of_def input_fields_of_def field_named_def)

section \<open>Properties of the type declarations\<close>

text \<open>
  C3. \<open>VendurePluginMetadata\<close> extends Nest's \<open>ModuleMetadata\<close> and adds exactly five
  properties, all optional: \<open>configuration\<close>, \<open>shopApiExtensions\<close>,
  \<open>adminApiExtensions\<close>, \<open>workers\<close> and \<open>entities\<close>. The two API extensions are
  each an \<open>APIExtensionDefinition\<close>, which consists of an optional \<open>schema\<close> document
  and a required \<open>resolvers\<close> array of classes; \<open>workers\<close> and \<open>entities\<close> are arrays
  of classes (\<open>Type<any>\<close>, the type of a constructor); \<open>configuration\<close> is a
  \<open>PluginConfigurationFn\<close>, a function from a \<open>Required<VendureConfig>\<close> to a
  \<open>Required<VendureConfig>\<close> or a promise of one.
\<close>

theorem VendurePluginMetadata_surface:
  "extended_types VendurePluginMetadata = [TRef ''ModuleMetadata'' []]
   \<and> map member_name (own_members VendurePluginMetadata) =
       [Some ''configuration'', Some ''shopApiExtensions'', Some ''adminApiExtensions'',
        Some ''workers'', Some ''entities'']
   \<and> map member_optional (own_members VendurePluginMetadata) = [True, True, True, True, True]
   \<and> map_option member_type (member_named ''shopApiExtensions'' VendurePluginMetadata) =
       Some APIExtensionDefinition
   \<and> map_option member_type (member_named ''adminApiExtensions'' VendurePluginMetadata) =
       Some APIExtensionDefinition
   \<and> own_members APIExtensionDefinition =
       [Property ''schema'' True (TRef ''DocumentNode'' []),
        Property ''resolvers'' False (TRef ''Array'' [Type TAny])]
   \<and> map_option member_type (member_named ''workers'' VendurePluginMetadata) =
       Some (TRef ''Array'' [Type TAny])
   \<and> map_option member_type (member_named ''entities'' VendurePluginMetadata) =
       Some (TRef ''Array'' [Type TAny])
   \<and> own_members (Type TAny) = [Construct [(''...args'', TArray TAny)] TAny]
   \<and> map_option member_type (member_named ''configuration'' VendurePluginMetadata) =
       Some PluginConfigurationFn
   \<and> PluginConfigurationFn =
       TFunction [(''config'', TRef ''Required'' [TRef ''VendureConfig'' []])]
         (TUnion [TRef ''Required'' [TRef ''VendureConfig'' []],
                  TRef ''Promise'' [TRef ''Required'' [TRef ''VendureConfig'' []]]])"
  by (simp add: VendurePluginMetadata_def member_named_def declared_members_def
      APIExtensionDefinition_def PluginConfigurationFn_def Type_def)

text \<open>
  C4. The custom field types are exactly the six literals string, localeString, int,
  float, boolean and datetime, and the six configurations of \<open>CustomFieldConfig\<close> are
  typed over them one for one, \<open>LocaleStringCustomFieldConfig\<close> over localeString.
  Every \<open>TypedCustomFieldConfig<T, C>\<close> has the required member \<open>type: T\<close>, an
  optional \<open>validate\<close> function whose parameter has the type \<open>DefaultValueType<T>\<close>,
  and an optional \<open>defaultValue\<close> of that same type, where \<open>DefaultValueType\<close> maps
  string and localeString to string, int and float to number, boolean to boolean and
  datetime to Date, and is \<open>never\<close> exactly outside the six field types.
\<close>

theorem custom_field_config_typing:
  "union_members CustomFieldType =
     map TLiteral [''string'', ''localeString'', ''int'', ''float'', ''boolean'', ''datetime'']
   \<and> map config_field_type (union_members CustomFieldConfig) =
       map literal_of (union_members CustomFieldType)
   \<and> config_field_type LocaleStringCustomFieldConfig = Some ''localeString''
   \<and> config_field_type (TypedCustomFieldConfig T C) = Some T
   \<and> member_named ''validate'' (TypedCustomFieldConfig T C) =
        Some (Property ''validate'' True
               (TFunction [(''value'', DefaultValueType T)]
                  (TUnion [TString, TArray (TRef ''LocalizedString'' []), TVoid])))
   \<and> member_named ''defaultValue'' (TypedCustomFieldConfig T C) =
        Some (Property ''defaultValue'' True (DefaultValueType T))
   \<and> map DefaultValueType [''string'', ''localeString'', ''int'', ''float'', ''boolean'', ''datetime''] =
        [TString, TString, TNumber, TNumber, TBoolean, TRef ''Date'' []]
   \<and> (DefaultValueType T = TNever) = (TLiteral T \<notin> set (union_members CustomFieldType))"
  by (simp add: CustomFieldType_def CustomFieldConfig_def config_field_type_def
      member_named_def declared_members_def TypedCustomFieldConfig_def
      StringCustomFieldConfig_def LocaleStringCustomFieldConfig_def IntCustomFieldConfig_def
      FloatCustomFieldConfig_def BooleanCustomFieldConfig_def DateTimeCustomFieldConfig_def
      DefaultValueType_def)

text \<open>
  C5. \<open>PluginLifecycleMethods\<close> is the intersection of exactly the four interfaces
  \<open>OnVendureBootstrap\<close>, \<open>OnVendureClose\<close>, \<open>OnVendureWorkerBootstrap\<close> and
  \<open>OnVendureWorkerClose\<close>. Each of them declares exactly one member, the hook of its
  own name, a method without parameters that returns \<open>void | Promise<void>\<close>; so the
  lifecycle surface has exactly four hooks.
\<close>

theorem plugin_lifecycle_hooks:
  "set (constituents PluginLifecycleMethods) =
     {OnVendureBootstrap, OnVendureClose, OnVendureWorkerBootstrap, OnVendureWorkerClose}
   \<and> length (constituents PluginLifecycleMethods) = 4
   \<and> map own_members
        [OnVendureBootstrap, OnVendureClose, OnVendureWorkerBootstrap, OnVendureWorkerClose] =
       [[Method ''onVendureBootstrap'' [] (TUnion [TVoid, TRef ''Promise'' [TVoid]])],
        [Method ''onVendureClose'' [] (TUnion [TVoid, TRef ''Promise'' [TVoid]])],
        [Method ''onVendureWorkerBootstrap'' [] (TUnion [TVoid, TRef ''Promise'' [TVoid]])],
        [Method ''onVendureWorkerClose'' [] (TUnion [TVoid, TRef ''Promise'' [TVoid]])]]
   \<and> map member_name (declared_members PluginLifecycleMethods) =
       [Some ''onVendureBootstrap'', Some ''onVendureWorkerBootstrap'',
        Some ''onVendureClose'', Some ''onVendureWorkerClose'']
   \<and> map member_type (declared_members PluginLifecycleMethods) =
       replicate 4 (TFunction [] (TUnion [TVoid, TRef ''Promise'' [TVoid]]))"
  by (simp add: PluginLifecycleMethods_def declared_members_def OnVendureBootstrap_def
      OnVendureWorkerBootstrap_def OnVendureClose_def OnVendureWorkerClose_def
      numeral_eq_Suc insert_commute)

text \<open>
  C7. The \<open>CustomFields\<close> interface extends nothing and has exactly twelve members,
  the optional properties Address, Collection, Customer, Facet, FacetValue,
  GlobalSettings, OrderLine, Product, ProductOption, ProductOptionGroup, ProductVariant
  and User, each of type \<open>CustomFieldConfig[]\<close>; and \<open>CustomFieldConfig\<close> is the union
  of exactly the six per-type configurations, typed over string, localeString, int,
  float, boolean and datetime.
\<close>

theorem CustomFields_entity_keys:
  "extended_types CustomFields = []
   \<and> map member_name (own_members CustomFields) = map Some
       [''Address'', ''Collection'', ''Customer'', ''Facet'', ''FacetValue'', ''GlobalSettings'',
        ''OrderLine'', ''Product'', ''ProductOption'', ''ProductOptionGroup'', ''ProductVariant'',
        ''User'']
   \<and> length (own_members CustomFields) = 12
   \<and> map member_optional (own_members CustomFields) = replicate 12 True
   \<and> map member_type (own_members CustomFields) = replicate 12 (TArray CustomFieldConfig)
   \<and> union_members CustomFieldConfig =
       [StringCustomFieldConfig, LocaleStringCustomFieldConfig, IntCustomFieldConfig,
        FloatCustomFieldConfig, BooleanCustomFieldConfig, DateTimeCustomFieldConfig]
   \<and> map config_field_type (union_members CustomFieldConfig) =
       map Some [''string'', ''localeString'', ''int'', ''float'', ''boolean'', ''datetime'']"
  by (simp add: CustomFields_def numeral_eq_Suc CustomFieldConfig_def config_field_type_def
      member_named_def declared_members_def TypedCustomFieldConfig_def
      StringCustomFieldConfig_def LocaleStringCustomFieldConfig_def IntCustomFieldConfig_def
      FloatCustomFieldConfig_def BooleanCustomFieldConfig_def DateTimeCustomFieldConfig_def)

section \<open>Properties of the decorator\<close>

text \<open>
  What the loop leaves in the store: under the target, each listed key whose value in
  the plugin metadata is neither null nor undefined holds that value; every other
  entry is as before.
\<close>

lemma define_plugin_metadata_lookup:
  "define_plugin_metadata PM pm target store (t, k) =
     (if t = target \<and> k \<in> set PM \<and> not_null (get_property pm k)
      then Some (get_property pm k) else store (t, k))"
  by (induction PM arbitrary: store) (auto simp: defineMetadata_def)


text \<open>
  C2. For every plugin metadata object and every target, the decorator returned by
  \<open>VendurePlugin(pluginMetadata)\<close> first defines, on the target, a Reflect metadata
  entry under each \<open>PLUGIN_METADATA\<close> key whose value in the plugin metadata is neither
  null nor undefined (the entry holds that value, and no other entry of the store
  changes), and then invokes Nest's \<open>Module\<close> decorator on the same target, in the
  store so extended.
\<close>

theorem VendurePlugin_defines_metadata_then_Module:
  "VendurePlugin PM MD Module pm target store =
      Module (pick pm MD) target (define_plugin_metadata PM pm target store)
   \<and> define_plugin_metadata PM pm target store (t, k) =
      (if t = target \<and> k \<in> set PM \<and> not_null (get_property pm k)
       then Some (get_property pm k) else store (t, k))"
  by (simp add: VendurePlugin_def define_plugin_metadata_lookup)





section \<open>Properties of the worker module\<close>

text \<open>
  C6. \<open>WorkerModule.onModuleDestroy\<close> is exactly the call of
  \<open>waitForOpenTasksToComplete\<close> on the module's injected monitor: it returns the value
  that call returns and leaves the state that call leaves, with nothing of its own
  added.
\<close>

theorem onModuleDestroy_delegates:
  "onModuleDestroy waitForOpenTasksToComplete this w =
     waitForOpenTasksToComplete (monitor this) w
   \<and> fst (onModuleDestroy waitForOpenTasksToComplete this w) =
       fst (waitForOpenTasksToComplete (monitor this) w)
   \<and> snd (onModuleDestroy waitForOpenTasksToComplete this w) =
       snd (waitForOpenTasksToComplete (monitor this) w)"
  by (simp add: onModuleDestroy_def)

text \<open>
  C10. \<open>WorkerModule.onApplicationShutdown\<close> calls \<open>Logger.info\<close>, once, with the
  message \<open>'Worker Received shutdown signal:'\<close> followed by the signal, if and only if
  the signal is given and is not the empty string; otherwise it does nothing. In every
  case the rest of the process state, the monitor's included, is unchanged.
\<close>

theorem onApplicationShutdown_logs_iff_signal:
  "onApplicationShutdown Logger_info this signal w =
     (case signal of
        None \<Rightarrow> w
      | Some s \<Rightarrow>
          if s = [] then w
          else w\<lparr>logger := Logger_info (''Worker Received shutdown signal:'' @ s) (logger w)\<rparr>)
   \<and> logger (onApplicationShutdown recording_logger this signal w') =
       (if truthy signal
        then logger w' @ [''Worker Received shutdown signal:'' @ to_string signal]
        else logger w')
   \<and> (logger (onApplicationShutdown recording_logger this signal w') \<noteq> logger w') = truthy signal
   \<and> process.more (onApplicationShutdown Logger_info this signal w) = process.more w"
  by (cases signal) (simp_all add: onApplicationShutdown_def recording_logger_def)

end
